theory Spec2Isabelle
  imports Complex_Main "HOL-Library.Sublist" "HOL-Library.Char_ord" "HOL-Library.List_Lexorder"
    "HOL-Library.Multiset" "HOL-Library.Log_Nat"
begin

section \<open>Seismos KPI editor and viewer: the computations on stage and quality rows\<close>

text \<open>
  The two scripts \<^verbatim>\<open>Seismos_KPI_v1.py\<close> (the editor) and \<^verbatim>\<open>Seismos_Viewer_v1.py\<close> (the
  viewer) turn rows of stage timings and quality observations into completion estimates,
  idle times and rate tables.  This theory embeds those computations.

  Conventions of the embedding:
  \<^item> a timestamp is a rational number of seconds since 1970-01-01T00:00, a duration a
    rational number of seconds or hours.  Python computes durations in binary floating
    point and stores them at a fixed resolution; the embedding computes them exactly, and
    keeps the bounds beyond which Python and pandas raise.  The rounding of binary
    floating point is modelled where a statement is about it, in \<open>float64\<close>;
  \<^item> a data frame is the list of its rows, in index order; only the columns the
    computations read are fields of the row;
  \<^item> a raised exception is the \<open>Inl\<close> of a sum type;
  \<^item> a dictionary is an association list in iteration order, read with \<^const>\<open>map_of\<close>.
\<close>

subsection \<open>Errors, cells and rows\<close>

datatype py_error =
    KeyError string | ValueError | ZeroDivisionError
  | OverflowError | OutOfBoundsDatetime | OutOfBoundsTimedelta

type_synonym timestamp = rat

text \<open>A cell of an uploaded sheet or a stored document: empty (NaN, None), or a value.\<close>

datatype 'a cell = Blank | Val 'a

text \<open>
  One row of the KPI frame.  The columns \<^verbatim>\<open>Start time\<close> and \<^verbatim>\<open>End time\<close> change type
  when they are converted, hence the two type parameters.  A blank \<^verbatim>\<open>Well Name\<close> is
  \<open>None\<close>.  \<^verbatim>\<open>Stage\<close> is a number, as the upload step's \<^verbatim>\<open>int(row['Stage'])\<close> requires.
\<close>

record ('s, 'e) kpi_row =
  Well_Name :: "string option"
  Stage :: int
  Start_time :: 's
  End_time :: 'e

subsection \<open>Column labels\<close>

text \<open>
  \<^verbatim>\<open>str.strip()\<close> removes leading and trailing whitespace.  Of the characters below 256
  Python counts as whitespace the codes 9 to 13, 28 to 32, 133 and 160.
\<close>

definition isspace :: "char \<Rightarrow> bool" where
  "isspace c = (let n = (of_char c :: nat)
                in (9 \<le> n \<and> n \<le> 13) \<or> (28 \<le> n \<and> n \<le> 32) \<or> n = 133 \<or> n = 160)"

definition strip :: "string \<Rightarrow> string" where
  "strip s = rev (dropWhile isspace (rev (dropWhile isspace s)))"

text \<open>
  \<^verbatim>\<open>kpi_df[label]\<close> on a frame with the given column labels: a missing label raises
  KeyError; a label that occurs twice selects a frame, which \<^verbatim>\<open>pd.to_datetime\<close> refuses
  with ValueError.
\<close>

definition select_column :: "string list \<Rightarrow> string \<Rightarrow> py_error + unit" where
  "select_column columns label =
     (if label \<notin> set columns then Inl (KeyError label)
      else if 1 < count_list columns label then Inl ValueError
      else Inr ())"

subsection \<open>Normalisation of the timestamp columns\<close>

text \<open>
  \<^verbatim>\<open>pd.to_datetime(column, errors="coerce")\<close> is pandas' own; two parameters stand for it.

  The permissive parser is \<open>parse\<close>, which gets the column as well as the value, since
  pandas may infer a format from the column as a whole.  When the call returns, a blank
  cell has given NaT, and so has a value the parser rejects: both are \<open>None\<close>.
\<close>

definition coerce ::
    "('a cell list \<Rightarrow> 'a \<Rightarrow> timestamp option) \<Rightarrow> 'a cell list \<Rightarrow> timestamp option list" where
  "coerce parse column =
     map (\<lambda>c. case c of Blank \<Rightarrow> None | Val v \<Rightarrow> parse column v) column"

text \<open>
  The call does not always return: \<^verbatim>\<open>errors="coerce"\<close> notwithstanding, pandas raises
  ValueError on some columns, as on one whose values carry different UTC offsets.  The
  parameter \<open>refuses\<close> says on which columns it does.
\<close>

definition to_datetime ::
    "('a cell list \<Rightarrow> bool) \<Rightarrow> ('a cell list \<Rightarrow> 'a \<Rightarrow> timestamp option) \<Rightarrow> 'a cell list
       \<Rightarrow> py_error + timestamp option list" where
  "to_datetime refuses parse column =
     (if refuses column then Inl ValueError else Inr (coerce parse column))"

text \<open>Assigning a converted column back to the frame, row by row.\<close>

definition assign_start :: "('s, 'e) kpi_row list \<Rightarrow> 't list \<Rightarrow> ('t, 'e) kpi_row list" where
  "assign_start df column =
     map2 (\<lambda>r v. \<lparr>Well_Name = Well_Name r, Stage = Stage r, Start_time = v, End_time = End_time r\<rparr>)
       df column"

definition assign_end :: "('s, 'e) kpi_row list \<Rightarrow> 't list \<Rightarrow> ('s, 't) kpi_row list" where
  "assign_end df column =
     map2 (\<lambda>r v. \<lparr>Well_Name = Well_Name r, Stage = Stage r, Start_time = Start_time r, End_time = v\<rparr>)
       df column"

text \<open>
  \<^verbatim>\<open>dropna(subset=["Start time", "End time"])\<close>: a row stays when neither of the two is
  NaT.  The rows that stay keep their order.
\<close>

fun dropna :: "(timestamp option, timestamp option) kpi_row list \<Rightarrow> (timestamp, timestamp) kpi_row list" where
  "dropna [] = []"
| "dropna (r # rs) =
     (case (Start_time r, End_time r) of
        (Some s, Some e) \<Rightarrow>
          \<lparr>Well_Name = Well_Name r, Stage = Stage r, Start_time = s, End_time = e\<rparr> # dropna rs
      | _ \<Rightarrow> dropna rs)"

text \<open>
  The three lines that both scripts share (editor lines 72 to 74, viewer lines 45 to 47):
  the first conversion that raises ends them.
\<close>

definition normalize_frame ::
    "('a cell list \<Rightarrow> bool) \<Rightarrow> ('a cell list \<Rightarrow> 'a \<Rightarrow> timestamp option)
       \<Rightarrow> ('a cell, 'a cell) kpi_row list \<Rightarrow> py_error + (timestamp, timestamp) kpi_row list" where
  "normalize_frame refuses parse kpi_df =
     (case to_datetime refuses parse (map Start_time kpi_df) of
        Inl e \<Rightarrow> Inl e
      | Inr starts \<Rightarrow>
          (let df1 = assign_start kpi_df starts in
           case to_datetime refuses parse (map End_time df1) of
             Inl e \<Rightarrow> Inl e
           | Inr ends \<Rightarrow> Inr (dropna (assign_end df1 ends))))"

text \<open>The frame that the three lines leave when both conversions return.\<close>

definition normalize_df ::
    "('a cell list \<Rightarrow> 'a \<Rightarrow> timestamp option) \<Rightarrow> ('a cell, 'a cell) kpi_row list
       \<Rightarrow> (timestamp, timestamp) kpi_row list" where
  "normalize_df parse kpi_df =
     (let df1 = assign_start kpi_df (coerce parse (map Start_time kpi_df));
          df2 = assign_end df1 (coerce parse (map End_time df1))
      in dropna df2)"

text \<open>
  The editor strips the column labels first (line 71) and then selects the two columns by
  their stripped labels.
\<close>

definition normalize_kpi ::
    "('a cell list \<Rightarrow> bool) \<Rightarrow> ('a cell list \<Rightarrow> 'a \<Rightarrow> timestamp option) \<Rightarrow> string list
       \<Rightarrow> ('a cell, 'a cell) kpi_row list \<Rightarrow> py_error + (timestamp, timestamp) kpi_row list" where
  "normalize_kpi refuses parse labels kpi_df =
     (let columns = map strip labels in
      case select_column columns ''Start time'' of
        Inl e \<Rightarrow> Inl e
      | Inr _ \<Rightarrow>
          (case select_column columns ''End time'' of
             Inl e \<Rightarrow> Inl e
           | Inr _ \<Rightarrow> normalize_frame refuses parse kpi_df))"

text \<open>
  What a conversion that returns makes of the two cells of one row of a frame, and the
  record a surviving row turns into.
\<close>

definition start_of :: "('a cell list \<Rightarrow> 'a \<Rightarrow> timestamp option) \<Rightarrow> ('a cell, 'a cell) kpi_row list
    \<Rightarrow> ('a cell, 'a cell) kpi_row \<Rightarrow> timestamp option" where
  "start_of parse kpi_df r =
     (case Start_time r of Blank \<Rightarrow> None | Val v \<Rightarrow> parse (map Start_time kpi_df) v)"

definition end_of :: "('a cell list \<Rightarrow> 'a \<Rightarrow> timestamp option) \<Rightarrow> ('a cell, 'a cell) kpi_row list
    \<Rightarrow> ('a cell, 'a cell) kpi_row \<Rightarrow> timestamp option" where
  "end_of parse kpi_df r =
     (case End_time r of Blank \<Rightarrow> None | Val v \<Rightarrow> parse (map End_time kpi_df) v)"

definition parses :: "('a cell list \<Rightarrow> 'a \<Rightarrow> timestamp option) \<Rightarrow> ('a cell, 'a cell) kpi_row list
    \<Rightarrow> ('a cell, 'a cell) kpi_row \<Rightarrow> bool" where
  "parses parse kpi_df r = (start_of parse kpi_df r \<noteq> None \<and> end_of parse kpi_df r \<noteq> None)"

definition stage_record :: "('a cell list \<Rightarrow> 'a \<Rightarrow> timestamp option) \<Rightarrow> ('a cell, 'a cell) kpi_row list
    \<Rightarrow> ('a cell, 'a cell) kpi_row \<Rightarrow> (timestamp, timestamp) kpi_row" where
  "stage_record parse kpi_df r =
     \<lparr>Well_Name = Well_Name r, Stage = Stage r,
      Start_time = the (start_of parse kpi_df r), End_time = the (end_of parse kpi_df r)\<rparr>"

subsection \<open>Grouping by well and the completion estimate (editor, lines 95 to 115)\<close>

text \<open>The column \<^verbatim>\<open>Duration (hrs)\<close>: seconds between start and end, over 3600.\<close>

definition Duration_hrs :: "(timestamp, timestamp) kpi_row \<Rightarrow> rat" where
  "Duration_hrs r = (End_time r - Start_time r) / 3600"

text \<open>
  \<^verbatim>\<open>kpi_df.groupby("Well Name")\<close>: one group per distinct well name, the names in sorted
  order (strings compare character by character, by character code), rows with a blank
  name in no group; each group keeps its rows in frame order.
\<close>

definition groupby_well :: "('s, 'e) kpi_row list \<Rightarrow> (string \<times> ('s, 'e) kpi_row list) list" where
  "groupby_well df =
     map (\<lambda>w. (w, filter (\<lambda>r. Well_Name r = Some w) df))
       (sort (remdups (List.map_filter Well_Name df)))"

text \<open>The rows of one well, in frame order: the group of that well.\<close>

definition well_rows :: "('s, 'e) kpi_row list \<Rightarrow> string \<Rightarrow> ('s, 'e) kpi_row list" where
  "well_rows kpi_df w = filter (\<lambda>r. Well_Name r = Some w) kpi_df"

text \<open>\<^verbatim>\<open>Series.mean()\<close> and \<^verbatim>\<open>Series.max()\<close>: NaN and NaT (\<open>None\<close>) on an empty series.\<close>

definition mean :: "rat list \<Rightarrow> rat option" where
  "mean xs = (if xs = [] then None else Some (sum_list xs / of_nat (length xs)))"

definition series_max :: "timestamp list \<Rightarrow> timestamp option" where
  "series_max xs = (case xs of [] \<Rightarrow> None | x # ys \<Rightarrow> Some (fold max ys x))"

text \<open>
  \<^verbatim>\<open>timedelta(hours=h)\<close>, in seconds.  Python keeps a duration as days, seconds and
  microseconds and raises OverflowError when the days exceed 999999999 in magnitude.
\<close>

definition timedelta_hours :: "rat \<Rightarrow> py_error + rat" where
  "timedelta_hours h =
     (let seconds = h * 3600; days = \<lfloor>seconds / 86400\<rfloor>
      in if days < - 999999999 \<or> 999999999 < days then Inl OverflowError else Inr seconds)"

text \<open>
  The least and the greatest Timestamp and the greatest Timedelta of pandas, in seconds.
  They depend on the version of pandas and on the resolution of the column, so they are
  a parameter; \<open>ns_limits\<close> are those of the nanosecond resolution, 2 ^ 63 - 1
  nanoseconds either side of 1970.
\<close>

record pandas_limits =
  timestamp_min :: rat
  timestamp_max :: rat
  timedelta_max :: rat

definition ns_limits :: pandas_limits where
  "ns_limits =
     \<lparr>timestamp_min = - (2 ^ 63 - 1) / 10 ^ 9, timestamp_max = (2 ^ 63 - 1) / 10 ^ 9,
      timedelta_max = (2 ^ 63 - 1) / 10 ^ 9\<rparr>"

text \<open>
  \<^verbatim>\<open>last_end + timedelta(...)\<close>: pandas turns the duration into a Timedelta and adds it,
  and raises when either is out of bounds.
\<close>

definition timestamp_add :: "pandas_limits \<Rightarrow> timestamp \<Rightarrow> rat \<Rightarrow> py_error + timestamp" where
  "timestamp_add lims t td =
     (if timedelta_max lims < \<bar>td\<bar> then Inl OutOfBoundsTimedelta
      else if t + td < timestamp_min lims \<or> timestamp_max lims < t + td then Inl OutOfBoundsDatetime
      else Inr (t + td))"

text \<open>\<^verbatim>\<open>job_data["wells"].get(well, 60)\<close>: the declared stage count, 60 for an undeclared well.\<close>

definition total_stages_kpi :: "(string \<times> int) list \<Rightarrow> string \<Rightarrow> int" where
  "total_stages_kpi wells well = (case map_of wells well of None \<Rightarrow> 60 | Some n \<Rightarrow> n)"

record well_progress =
  well :: string
  total_stages :: int
  stages_done :: int
  stages_remaining :: int
  avg_duration :: rat
  last_end :: timestamp
  est_end :: timestamp

text \<open>
  The body of the loop over the groups.  On an empty group the mean is NaN and
  \<^verbatim>\<open>timedelta(hours=nan)\<close> raises ValueError.  The stage count of a declared well is
  any integer from 1 on (the form sets no maximum), so the duration and the sum can be
  out of bounds.
\<close>

definition estimate_well ::
    "pandas_limits \<Rightarrow> (string \<times> int) list \<Rightarrow> string \<Rightarrow> (timestamp, timestamp) kpi_row list
       \<Rightarrow> py_error + well_progress" where
  "estimate_well lims wells w grp =
     (let total = total_stages_kpi wells w;
          completed = int (length grp);
          remaining = total - completed
      in case (mean (map Duration_hrs grp), series_max (map End_time grp)) of
           (Some avg, Some le) \<Rightarrow>
             (case timedelta_hours (of_int remaining * avg) of
                Inl e \<Rightarrow> Inl e
              | Inr td \<Rightarrow>
                  (case timestamp_add lims le td of
                     Inl e \<Rightarrow> Inl e
                   | Inr est \<Rightarrow>
                       Inr \<lparr>well = w, total_stages = total, stages_done = completed,
                            stages_remaining = remaining, avg_duration = avg, last_end = le,
                            est_end = est\<rparr>))
         | _ \<Rightarrow> Inl ValueError)"

text \<open>The loop: the first estimate that raises ends it.\<close>

fun estimate_wells ::
    "pandas_limits \<Rightarrow> (string \<times> int) list \<Rightarrow> (string \<times> (timestamp, timestamp) kpi_row list) list
       \<Rightarrow> py_error + well_progress list" where
  "estimate_wells lims wells [] = Inr []"
| "estimate_wells lims wells ((w, grp) # rest) =
     (case estimate_well lims wells w grp of
        Inl e \<Rightarrow> Inl e
      | Inr p \<Rightarrow>
          (case estimate_wells lims wells rest of
             Inl e \<Rightarrow> Inl e
           | Inr ps \<Rightarrow> Inr (p # ps)))"

text \<open>Python's \<^verbatim>\<open>max\<close> of a list: ValueError on the empty list, else the first greatest item.\<close>

definition py_max :: "timestamp list \<Rightarrow> py_error + timestamp" where
  "py_max xs =
     (case xs of
        [] \<Rightarrow> Inl ValueError
      | x # ys \<Rightarrow> Inr (fold (\<lambda>y m. if m < y then y else m) ys x))"

definition pad_end ::
    "pandas_limits \<Rightarrow> (string \<times> int) list \<Rightarrow> (timestamp, timestamp) kpi_row list
       \<Rightarrow> py_error + timestamp" where
  "pad_end lims wells kpi_df =
     (case estimate_wells lims wells (groupby_well kpi_df) of
        Inl e \<Rightarrow> Inl e
      | Inr pad_estimates \<Rightarrow> py_max (map est_end pad_estimates))"

subsection \<open>Idle times (editor, lines 120 to 125)\<close>

text \<open>\<^verbatim>\<open>Series.diff()\<close>: NaT first, then each value minus the one before it.\<close>

fun diff :: "rat list \<Rightarrow> rat option list" where
  "diff [] = []"
| "diff (x # xs) = None # map2 (\<lambda>a b. Some (b - a)) (x # xs) xs"

text \<open>
  The group sorted by start time, each row with its \<^verbatim>\<open>Idle (hrs)\<close>.  The sort is taken
  stable; rows with equal start times have the same differences in any order.
\<close>

definition idle_hrs ::
    "(timestamp, timestamp) kpi_row list \<Rightarrow> ((timestamp, timestamp) kpi_row \<times> rat option) list" where
  "idle_hrs grp =
     (let sorted_group = sort_key Start_time grp
      in zip sorted_group
           (map (map_option (\<lambda>seconds. seconds / 3600)) (diff (map Start_time sorted_group))))"

definition idle_analysis ::
    "(timestamp, timestamp) kpi_row list
       \<Rightarrow> (string \<times> ((timestamp, timestamp) kpi_row \<times> rat option) list) list" where
  "idle_analysis kpi_df = map (\<lambda>(w, grp). (w, idle_hrs grp)) (groupby_well kpi_df)"

subsection \<open>Target stage count in the viewer (lines 65 to 78)\<close>

text \<open>Python's \<^verbatim>\<open>a in b\<close> on strings: \<open>a\<close> occurs in \<open>b\<close> as a contiguous piece.\<close>

definition str_in :: "string \<Rightarrow> string \<Rightarrow> bool" where
  "str_in a b = sublist a b"

text \<open>
  The loop over \<^verbatim>\<open>job_data["wells"].keys()\<close>, which stops at the first saved name that
  contains the well name or is contained in it.
\<close>

fun fuzzy_match :: "(string \<times> int) list \<Rightarrow> string list \<Rightarrow> string \<Rightarrow> int option" where
  "fuzzy_match wells [] well_name = None"
| "fuzzy_match wells (saved_name # rest) well_name =
     (if str_in saved_name well_name \<or> str_in well_name saved_name
      then map_of wells saved_name
      else fuzzy_match wells rest well_name)"

definition total_stages_viewer :: "(string \<times> int) list \<Rightarrow> string \<Rightarrow> int" where
  "total_stages_viewer wells well_name =
     (case map_of wells well_name of
        Some n \<Rightarrow> n
      | None \<Rightarrow>
          (case fuzzy_match wells (map fst wells) well_name of
             Some n \<Rightarrow> n
           | None \<Rightarrow> 0))"

text \<open>One line of the stage completion summary: well, completed, total, remaining.\<close>

definition completion_summary ::
    "(string \<times> int) list \<Rightarrow> ('s, 'e) kpi_row list \<Rightarrow> (string \<times> int \<times> int \<times> int) list" where
  "completion_summary wells kpi_df =
     map (\<lambda>(well_name, grp).
            let total = total_stages_viewer wells well_name;
                completed = int (length grp)
            in (well_name, completed, total, total - completed))
       (groupby_well kpi_df)"

subsection \<open>Quality summary in the viewer (lines 88 to 125)\<close>

text \<open>
  A stored quality entry.  A field that is missing or null reads as NaN in the frame
  (\<open>None\<close>); the columns themselves are there, as in every entry the editor writes.
\<close>

record quality_record =
  q_well :: "string option"
  pre_sand :: "string option"
  post_sand :: "string option"
  spp :: "string option"

definition quality_of_well :: "quality_record list \<Rightarrow> string \<Rightarrow> quality_record list" where
  "quality_of_well quality_docs selected_well =
     filter (\<lambda>doc. q_well doc = Some selected_well) quality_docs"

text \<open>
  \<^verbatim>\<open>Series.value_counts().to_dict()\<close>: the distinct values that are not NaN, each with the
  number of its occurrences, the most frequent first, equally frequent ones in the order
  of their first occurrence.
\<close>

definition value_counts :: "string option list \<Rightarrow> (string \<times> nat) list" where
  "value_counts column =
     (let vals = List.map_filter (\<lambda>v. v) column
      in sort_key (\<lambda>(k, c). - int c)
           (map (\<lambda>k. (k, count_list vals k)) (rev (remdups (rev vals)))))"

text \<open>\<^verbatim>\<open>counts.get(cond, 0)\<close>.\<close>

definition get0 :: "(string \<times> nat) list \<Rightarrow> string \<Rightarrow> nat" where
  "get0 counts cond = (case map_of counts cond of None \<Rightarrow> 0 | Some c \<Rightarrow> c)"

record rate_row =
  Condition :: string
  Pre :: nat
  Post :: nat
  Total :: nat

record rate_df_row = rate_row +
  Percent_Total :: "rat option"

definition rate_table :: "(string \<times> nat) list \<Rightarrow> (string \<times> nat) list \<Rightarrow> rate_row list" where
  "rate_table pre_counts post_counts =
     (let rate_conditions = sort (remdups (map fst pre_counts @ map fst post_counts))
      in map (\<lambda>cond.
                let pre = get0 pre_counts cond;
                    post = get0 post_counts cond;
                    total = pre + post
                in \<lparr>Condition = cond, Pre = pre, Post = post, Total = total\<rparr>)
           rate_conditions)"

text \<open>
  Division of a pandas column by a number does not raise: on a zero divisor the result is
  inf or NaN, here \<open>None\<close>.  The quotient is the exact one; the binary64 number that the
  code stores for it is \<open>float64_percent\<close> below.
\<close>

definition np_truediv :: "nat \<Rightarrow> nat \<Rightarrow> rat option" where
  "np_truediv a b = (if b = 0 then None else Some (of_nat a / of_nat b))"

text \<open>
  The frame of the rate table with its percent column.  A frame built from no rows has
  no columns, and \<^verbatim>\<open>rate_df["Total"]\<close> raises KeyError then.
\<close>

definition rate_df :: "quality_record list \<Rightarrow> py_error + rate_df_row list" where
  "rate_df quality_df =
     (let pre_counts = value_counts (map pre_sand quality_df);
          post_counts = value_counts (map post_sand quality_df);
          table = rate_table pre_counts post_counts
      in if table = [] then Inl (KeyError ''Total'')
         else
           (let total_rate = sum_list (map Total table)
            in Inr (map (\<lambda>r. \<lparr>Condition = Condition r, Pre = Pre r, Post = Post r, Total = Total r,
                               Percent_Total =
                                 map_option (\<lambda>q. q * 100) (np_truediv (Total r) total_rate)\<rparr>)
                      table)))"

text \<open>Python's \<^verbatim>\<open>a / b\<close> on integers raises ZeroDivisionError when \<open>b\<close> is 0.\<close>

definition py_truediv :: "nat \<Rightarrow> nat \<Rightarrow> py_error + rat" where
  "py_truediv a b = (if b = 0 then Inl ZeroDivisionError else Inr (of_nat a / of_nat b))"

text \<open>
  A row of the SPP table.  The script stores the percentage as text with two decimals;
  the row holds the exact percentage, and \<open>float64_percent\<close> below is the binary64 number
  that is formatted.
\<close>

record spp_row =
  SPP_Condition :: string
  Count :: nat
  SPP_Percent_Total :: rat

fun spp_rows :: "nat \<Rightarrow> (string \<times> nat) list \<Rightarrow> py_error + spp_row list" where
  "spp_rows spp_total [] = Inr []"
| "spp_rows spp_total ((k, v) # items) =
     (case py_truediv v spp_total of
        Inl e \<Rightarrow> Inl e
      | Inr q \<Rightarrow>
          (case spp_rows spp_total items of
             Inl e \<Rightarrow> Inl e
           | Inr rows \<Rightarrow> Inr (\<lparr>SPP_Condition = k, Count = v, SPP_Percent_Total = q * 100\<rparr> # rows)))"

definition spp_table :: "quality_record list \<Rightarrow> py_error + spp_row list" where
  "spp_table quality_df =
     (let spp_counts = value_counts (map spp quality_df);
          spp_total = sum_list (map snd spp_counts)
      in spp_rows spp_total spp_counts)"

text \<open>
  The block under \<^verbatim>\<open>if not quality_df.empty\<close>: both tables, or the warning that there is
  no quality data when the frame has no rows.
\<close>

datatype quality_view = No_Quality_Data | Quality_Tables "rate_df_row list" "spp_row list"

definition quality_summary :: "quality_record list \<Rightarrow> py_error + quality_view" where
  "quality_summary quality_df =
     (if quality_df = [] then Inr No_Quality_Data
      else
        (case rate_df quality_df of
           Inl e \<Rightarrow> Inl e
         | Inr rates \<Rightarrow>
             (case spp_table quality_df of
                Inl e \<Rightarrow> Inl e
              | Inr spps \<Rightarrow> Inr (Quality_Tables rates spps))))"

subsection \<open>Binary floating point\<close>

text \<open>
  The counts are integers; \<^verbatim>\<open>Total / total_rate * 100\<close> and \<^verbatim>\<open>(v/spp_total)*100\<close> are
  computed in IEEE binary64, each operation rounded to the nearest representable number,
  ties to the even significand.
\<close>





subsection \<open>Example data\<close>

text \<open>
  A parser that knows five texts, all on 2024-01-01 (which starts 1704067200 seconds after
  the epoch), and rejects every other text.
\<close>

definition parse_example :: "string cell list \<Rightarrow> string \<Rightarrow> timestamp option" where
  "parse_example column v =
     (if v = ''2024-01-01 00:00'' then Some 1704067200
      else if v = ''2024-01-01 01:00'' then Some 1704070800
      else if v = ''2024-01-01 02:00'' then Some 1704074400
      else if v = ''2024-01-01 03:00'' then Some 1704078000
      else if v = ''2024-01-01 04:00'' then Some 1704081600
      else None)"

text \<open>An upload for well A: two good rows, one with an unreadable start, one with a blank end.\<close>

definition upload_A :: "(string cell, string cell) kpi_row list" where
  "upload_A =
     [\<lparr>Well_Name = Some ''A'', Stage = 1,
       Start_time = Val ''2024-01-01 00:00'', End_time = Val ''2024-01-01 01:00''\<rparr>,
      \<lparr>Well_Name = Some ''A'', Stage = 2,
       Start_time = Val ''pending'', End_time = Val ''2024-01-01 02:00''\<rparr>,
      \<lparr>Well_Name = Some ''A'', Stage = 3,
       Start_time = Val ''2024-01-01 02:00'', End_time = Blank\<rparr>,
      \<lparr>Well_Name = Some ''A'', Stage = 4,
       Start_time = Val ''2024-01-01 03:00'', End_time = Val ''2024-01-01 04:00''\<rparr>]"

text \<open>Well A with stages from 00:00 to 01:00 and from 03:00 to 04:00.\<close>

definition stages_A :: "(timestamp, timestamp) kpi_row list" where
  "stages_A =
     [\<lparr>Well_Name = Some ''A'', Stage = 1, Start_time = 1704067200, End_time = 1704070800\<rparr>,
      \<lparr>Well_Name = Some ''A'', Stage = 4, Start_time = 1704078000, End_time = 1704081600\<rparr>]"

text \<open>The same with one stage of well B, from 02:00 to 04:00, between them.\<close>

definition stages_AB :: "(timestamp, timestamp) kpi_row list" where
  "stages_AB =
     [\<lparr>Well_Name = Some ''A'', Stage = 1, Start_time = 1704067200, End_time = 1704070800\<rparr>,
      \<lparr>Well_Name = Some ''B'', Stage = 1, Start_time = 1704074400, End_time = 1704081600\<rparr>,
      \<lparr>Well_Name = Some ''A'', Stage = 4, Start_time = 1704078000, End_time = 1704081600\<rparr>]"

text \<open>A row whose end, 00:00, is before its start, 01:00.\<close>

definition upload_reversed :: "(string cell, string cell) kpi_row list" where
  "upload_reversed =
     [\<lparr>Well_Name = Some ''A'', Stage = 1,
       Start_time = Val ''2024-01-01 01:00'', End_time = Val ''2024-01-01 00:00''\<rparr>]"


text \<open>
  Three quality entries of well B: pre-sand Good, Good, Bad; post-sand Good and two
  blanks; SPP Good, Anomaly, Good.
\<close>

definition quality_B :: "quality_record list" where
  "quality_B =
     [\<lparr>q_well = Some ''B'', pre_sand = Some ''Good'', post_sand = Some ''Good'', spp = Some ''Good''\<rparr>,
      \<lparr>q_well = Some ''B'', pre_sand = Some ''Good'', post_sand = None, spp = Some ''Anomaly''\<rparr>,
      \<lparr>q_well = Some ''B'', pre_sand = Some ''Bad'', post_sand = None, spp = Some ''Good''\<rparr>]"


text \<open>
  The UTC offset that a text ends with, as in \<^verbatim>\<open>2024-01-01 03:00+01:00\<close>, if it ends with one.
\<close>

definition utc_offset_example :: "string \<Rightarrow> string option" where
  "utc_offset_example v =
     (let n = length v in
      if 6 \<le> n \<and> (v ! (n - 6) = CHR ''+'' \<or> v ! (n - 6) = CHR ''-'') \<and> v ! (n - 3) = CHR '':''
      then Some (drop (n - 6) v) else None)"

text \<open>
  What pandas refuses in the examples: a column whose values carry different UTC offsets.
\<close>

definition refuses_example :: "string cell list \<Rightarrow> bool" where
  "refuses_example column =
     (1 < length (remdups (List.map_filter
        (\<lambda>c. case c of Blank \<Rightarrow> None | Val v \<Rightarrow> utc_offset_example v) column)))"

text \<open>A parser that also knows three texts with an offset.\<close>

definition parse_offsets_example :: "string cell list \<Rightarrow> string \<Rightarrow> timestamp option" where
  "parse_offsets_example column v =
     (if v = ''2024-01-01 00:00+00:00'' then Some 1704067200
      else if v = ''2024-01-01 03:00+01:00'' then Some 1704074400
      else parse_example column v)"

text \<open>
  Two rows whose start times are both well-formed, one at offset +00:00 and one at offset
  +01:00.
\<close>

definition upload_mixed :: "(string cell, string cell) kpi_row list" where
  "upload_mixed =
     [\<lparr>Well_Name = Some ''A'', Stage = 1,
       Start_time = Val ''2024-01-01 00:00+00:00'', End_time = Val ''2024-01-01 01:00''\<rparr>,
      \<lparr>Well_Name = Some ''A'', Stage = 2,
       Start_time = Val ''2024-01-01 03:00+01:00'', End_time = Val ''2024-01-01 04:00''\<rparr>]"

subsection \<open>Facts about normalisation\<close>

lemma dropna_map:
  "dropna (map (\<lambda>r. \<lparr>Well_Name = Well_Name r, Stage = Stage r, Start_time = f r, End_time = g r\<rparr>) rs) =
   map (\<lambda>r. \<lparr>Well_Name = Well_Name r, Stage = Stage r, Start_time = the (f r), End_time = the (g r)\<rparr>)
     (filter (\<lambda>r. f r \<noteq> None \<and> g r \<noteq> None) rs)"
  by (induction rs) (auto split: option.splits)

lemma map2_map_map: "map2 f (map h xs) (map g xs) = map (\<lambda>x. f (h x) (g x)) xs"
  by (induction xs) simp_all

lemma assign_start_map:
  "assign_start (map h xs) (map g xs) =
   map (\<lambda>x. \<lparr>Well_Name = Well_Name (h x), Stage = Stage (h x), Start_time = g x,
               End_time = End_time (h x)\<rparr>) xs"
  unfolding assign_start_def by (rule map2_map_map)

lemma assign_end_map:
  "assign_end (map h xs) (map g xs) =
   map (\<lambda>x. \<lparr>Well_Name = Well_Name (h x), Stage = Stage (h x), Start_time = Start_time (h x),
               End_time = g x\<rparr>) xs"
  unfolding assign_end_def by (rule map2_map_map)

lemma normalize_df_filter:
  "normalize_df parse kpi_df = map (stage_record parse kpi_df) (filter (parses parse kpi_df) kpi_df)"
proof -
  let ?s = "start_of parse kpi_df" and ?e = "end_of parse kpi_df"
  have sc: "coerce parse (map Start_time kpi_df) = map ?s kpi_df"
    by (simp add: coerce_def start_of_def)
  have df1: "assign_start kpi_df (coerce parse (map Start_time kpi_df)) =
      map (\<lambda>r. \<lparr>Well_Name = Well_Name r, Stage = Stage r, Start_time = ?s r,
                 End_time = End_time r\<rparr>) kpi_df" (is "_ = map ?h kpi_df")
    using assign_start_map[of "\<lambda>r. r" kpi_df ?s] by (simp add: sc)
  have ec: "coerce parse (map End_time (map ?h kpi_df)) = map ?e kpi_df"
    by (simp add: coerce_def end_of_def comp_def)
  have df2: "assign_end (map ?h kpi_df) (map ?e kpi_df) =
      map (\<lambda>r. \<lparr>Well_Name = Well_Name r, Stage = Stage r, Start_time = ?s r,
                 End_time = ?e r\<rparr>) kpi_df"
    by (simp add: assign_end_map)
  show ?thesis
    unfolding normalize_df_def Let_def df1 ec df2 dropna_map
    by (simp add: stage_record_def parses_def cong: filter_cong)
qed

lemma normalize_frame_cases:
  "normalize_frame refuses parse kpi_df =
     (if refuses (map Start_time kpi_df) \<or> refuses (map End_time kpi_df) then Inl ValueError
      else Inr (normalize_df parse kpi_df))"
proof -
  have e: "map End_time (assign_start kpi_df (coerce parse (map Start_time kpi_df))) = map End_time kpi_df"
    by (simp add: assign_start_def coerce_def map2_map_map[where h = "\<lambda>x. x", simplified] comp_def)
  show ?thesis
    by (simp add: normalize_frame_def to_datetime_def normalize_df_def Let_def e)
qed

lemma length_normalize_df: "length (normalize_df parse kpi_df) \<le> length kpi_df"
  by (simp add: normalize_df_filter)

lemma refuses_upload:
  "refuses_example (map Start_time upload_mixed)"
  "\<not> refuses_example (map End_time upload_mixed)"
  "\<not> refuses_example (map Start_time [upload_mixed ! 0])"
  "\<not> refuses_example (map End_time [upload_mixed ! 0])"
  "\<not> refuses_example (map Start_time [upload_mixed ! 1])"
  "\<not> refuses_example (map End_time [upload_mixed ! 1])"
  by (simp_all add: refuses_example_def upload_mixed_def List.map_filter_simps utc_offset_example_def)

lemma normalize_kpi_plain_labels:
  "normalize_kpi refuses parse [''Start time'', ''End time''] kpi_df = normalize_frame refuses parse kpi_df"
  by (simp add: normalize_kpi_def select_column_def strip_def isspace_def)

lemma normalize_df_mixed_rows:
  "normalize_df parse_offsets_example [upload_mixed ! 0]
     = [\<lparr>Well_Name = Some ''A'', Stage = 1, Start_time = 1704067200, End_time = 1704070800\<rparr>]"
  "normalize_df parse_offsets_example [upload_mixed ! 1]
     = [\<lparr>Well_Name = Some ''A'', Stage = 2, Start_time = 1704074400, End_time = 1704081600\<rparr>]"
  by (simp_all add: normalize_df_filter upload_mixed_def parses_def stage_record_def start_of_def
      end_of_def parse_offsets_example_def parse_example_def)

subsection \<open>Facts about grouping and the estimate\<close>

lemma groupby_well_member:
  assumes "(w, g) \<in> set (groupby_well df)"
  shows "g = filter (\<lambda>r. Well_Name r = Some w) df" and "g \<noteq> []"
proof -
  from assms have w: "w \<in> set (List.map_filter Well_Name df)"
    and g: "g = filter (\<lambda>r. Well_Name r = Some w) df"
    by (auto simp: groupby_well_def)
  show "g = filter (\<lambda>r. Well_Name r = Some w) df" by (rule g)
  from w obtain r where "r \<in> set df" "Well_Name r = Some w"
    by (auto simp: List.map_filter_def)
  then show "g \<noteq> []" unfolding g by (auto simp: filter_empty_conv)
qed

lemma groupby_well_Nil: "groupby_well df = [] \<longleftrightarrow> (\<forall>r \<in> set df. Well_Name r = None)"
proof -
  have "groupby_well df = [] \<longleftrightarrow> set (List.map_filter Well_Name df) = {}"
    unfolding groupby_well_def by (simp del: set_empty add: set_empty[symmetric])
  then show ?thesis
    by (auto simp: List.map_filter_def)
qed

lemma series_max_Max: "xs \<noteq> [] \<Longrightarrow> series_max xs = Some (Max (set xs))"
  by (cases xs) (simp_all add: series_max_def Max.set_eq_fold[symmetric])

lemma groupby_well_covers:
  assumes "r \<in> set df" and "Well_Name r = Some w"
  shows "(w, filter (\<lambda>r. Well_Name r = Some w) df) \<in> set (groupby_well df)"
proof -
  from assms have "w \<in> set (List.map_filter Well_Name df)"
    by (force simp: List.map_filter_def)
  then show ?thesis
    by (simp add: groupby_well_def)
qed

lemma groupby_well_distinct: "distinct (map fst (groupby_well df))"
  by (simp add: groupby_well_def comp_def)

lemma timedelta_hours_cases:
  "timedelta_hours h =
     (if - 999999999 \<le> \<lfloor>h * 3600 / 86400\<rfloor> \<and> \<lfloor>h * 3600 / 86400\<rfloor> \<le> 999999999
      then Inr (h * 3600) else Inl OverflowError)"
  by (auto simp: timedelta_hours_def Let_def)

lemma timestamp_add_cases:
  "timestamp_add lims t td =
     (if \<bar>td\<bar> \<le> timedelta_max lims \<and> timestamp_min lims \<le> t + td \<and> t + td \<le> timestamp_max lims
      then Inr (t + td)
      else if timedelta_max lims < \<bar>td\<bar> then Inl OutOfBoundsTimedelta else Inl OutOfBoundsDatetime)"
  by (auto simp: timestamp_add_def)

lemma estimate_well_nonempty:
  assumes "g \<noteq> []"
    and remaining_def: "remaining = total_stages_kpi wells w - int (length g)"
    and avg_def: "avg = sum_list (map Duration_hrs g) / of_nat (length g)"
    and le_def: "le = Max (End_time ` set g)"
    and td_def: "td = of_int remaining * avg * 3600"
  shows "estimate_well lims wells w g =
    (if - 999999999 \<le> \<lfloor>td / 86400\<rfloor> \<and> \<lfloor>td / 86400\<rfloor> \<le> 999999999
        \<and> \<bar>td\<bar> \<le> timedelta_max lims \<and> timestamp_min lims \<le> le + td \<and> le + td \<le> timestamp_max lims
     then Inr \<lparr>well = w, total_stages = total_stages_kpi wells w, stages_done = int (length g),
               stages_remaining = remaining, avg_duration = avg, last_end = le, est_end = le + td\<rparr>
     else if \<lfloor>td / 86400\<rfloor> < - 999999999 \<or> 999999999 < \<lfloor>td / 86400\<rfloor> then Inl OverflowError
     else if timedelta_max lims < \<bar>td\<bar> then Inl OutOfBoundsTimedelta
     else Inl OutOfBoundsDatetime)"
proof -
  have m: "mean (map Duration_hrs g) = Some avg"
    using assms(1) by (simp add: mean_def avg_def)
  have x: "series_max (map End_time g) = Some le"
    using assms(1) by (simp add: series_max_Max le_def)
  show ?thesis
    unfolding estimate_well_def Let_def m x remaining_def[symmetric]
    by (simp add: timedelta_hours_cases timestamp_add_cases td_def not_le not_less)
qed

lemma estimate_wells_Inr:
  assumes "estimate_wells lims wells groups = Inr ps"
  shows "map Inr ps = map (\<lambda>(w, g). estimate_well lims wells w g) groups"
  using assms
proof (induction groups arbitrary: ps)
  case Nil
  then show ?case by simp
next
  case (Cons wg groups)
  obtain w g where wg: "wg = (w, g)" by (cases wg)
  from Cons.prems obtain p qs where p: "estimate_well lims wells w g = Inr p"
    and qs: "estimate_wells lims wells groups = Inr qs" and ps: "ps = p # qs"
    by (auto simp: wg split: sum.splits)
  from Cons.IH[OF qs] p show ?case by (simp add: wg ps)
qed

lemma estimate_wells_all_defined:
  assumes "\<forall>(w, g) \<in> set groups. \<exists>p. estimate_well lims wells w g = Inr p"
  shows "\<exists>ps. estimate_wells lims wells groups = Inr ps"
  using assms
proof (induction groups)
  case Nil
  then show ?case by simp
next
  case (Cons wg groups)
  obtain w g where wg: "wg = (w, g)" by (cases wg)
  with Cons.prems obtain p where "estimate_well lims wells w g = Inr p" by auto
  moreover from Cons obtain ps where "estimate_wells lims wells groups = Inr ps" by auto
  ultimately show ?case by (simp add: wg)
qed

lemma estimate_wells_raises:
  assumes "(w, g) \<in> set groups" and "estimate_well lims wells w g = Inl e"
  shows "\<exists>e'. estimate_wells lims wells groups = Inl e'"
proof (cases "estimate_wells lims wells groups")
  case (Inl e')
  then show ?thesis by blast
next
  case (Inr ps)
  then have "map Inr ps = map (\<lambda>(w, g). estimate_well lims wells w g) groups"
    by (rule estimate_wells_Inr)
  then have "Inr ` set ps = (\<lambda>(w, g). estimate_well lims wells w g) ` set groups"
    by (metis (no_types) list.set_map)
  with assms have "Inl e \<in> Inr ` set ps" by force
  then show ?thesis by auto
qed

lemma groupby_well_rows:
  "(w, g) \<in> set (groupby_well df) \<longleftrightarrow> g = well_rows df w \<and> (\<exists>r \<in> set df. Well_Name r = Some w)"
proof
  assume a: "(w, g) \<in> set (groupby_well df)"
  from groupby_well_member[OF a] have g: "g = well_rows df w" and "g \<noteq> []"
    by (simp_all add: well_rows_def)
  then obtain r where "r \<in> set (well_rows df w)" by (cases "well_rows df w") auto
  then have "r \<in> set df" "Well_Name r = Some w" by (simp_all add: well_rows_def)
  with g show "g = well_rows df w \<and> (\<exists>r \<in> set df. Well_Name r = Some w)" by blast
next
  assume "g = well_rows df w \<and> (\<exists>r \<in> set df. Well_Name r = Some w)"
  then show "(w, g) \<in> set (groupby_well df)"
    using groupby_well_covers[of _ df w] by (auto simp: well_rows_def)
qed

lemma py_max_Max: "xs \<noteq> [] \<Longrightarrow> py_max xs = Inr (Max (set xs))"
proof -
  have eq: "(\<lambda>y m. if m < y then y else m) = (max :: rat \<Rightarrow> rat \<Rightarrow> rat)"
    by (auto simp: fun_eq_iff max_def)
  show "xs \<noteq> [] \<Longrightarrow> py_max xs = Inr (Max (set xs))"
    by (cases xs) (simp_all add: py_max_def eq Max.set_eq_fold[symmetric])
qed

lemma ns_limits_simps:
  "timestamp_min ns_limits = - 9223372036854775807 / 1000000000"
  "timestamp_max ns_limits = 9223372036854775807 / 1000000000"
  "timedelta_max ns_limits = 9223372036854775807 / 1000000000"
  by (simp_all add: ns_limits_def)

lemma well_rows_stages_AB:
  "well_rows stages_AB ''A'' =
     [\<lparr>Well_Name = Some ''A'', Stage = 1, Start_time = 1704067200, End_time = 1704070800\<rparr>,
      \<lparr>Well_Name = Some ''A'', Stage = 4, Start_time = 1704078000, End_time = 1704081600\<rparr>]"
  "well_rows stages_AB ''B'' =
     [\<lparr>Well_Name = Some ''B'', Stage = 1, Start_time = 1704074400, End_time = 1704081600\<rparr>]"
  by (simp_all add: well_rows_def stages_AB_def)

lemma est_AB:
  "estimate_well ns_limits [(''A'', 3), (''B'', 2)] ''A'' (well_rows stages_AB ''A'') =
     Inr \<lparr>well = ''A'', total_stages = 3, stages_done = 2, stages_remaining = 1, avg_duration = 1,
          last_end = 1704081600, est_end = 1704085200\<rparr>"
  "estimate_well ns_limits [(''A'', 3), (''B'', 2)] ''B'' (well_rows stages_AB ''B'') =
     Inr \<lparr>well = ''B'', total_stages = 2, stages_done = 1, stages_remaining = 1, avg_duration = 2,
          last_end = 1704081600, est_end = 1704088800\<rparr>"
  unfolding well_rows_stages_AB
  by (subst estimate_well_nonempty[OF _ refl refl refl refl];
      simp add: total_stages_kpi_def Duration_hrs_def ns_limits_simps)+

subsection \<open>Facts about the target stage count\<close>


lemma fuzzy_match_no_match:
  assumes "\<forall>k \<in> set keys. \<not> (str_in k w \<or> str_in w k)"
  shows "fuzzy_match wells keys w = None"
  using assms by (induction keys) simp_all


lemma viewer_unmatched_target:
  assumes "map_of wells w = None" and "\<forall>k \<in> set (map fst wells). \<not> str_in k w \<and> \<not> str_in w k"
  shows "total_stages_viewer wells w = 0"
proof -
  from assms(2) have "fuzzy_match wells (map fst wells) w = None"
    by (intro fuzzy_match_no_match) blast
  with assms(1) show ?thesis
    by (simp add: total_stages_viewer_def)
qed

lemma editor_unmatched_target: "map_of wells w = None \<Longrightarrow> total_stages_kpi wells w = 60"
  by (simp add: total_stages_kpi_def)

subsection \<open>Facts about idle times\<close>

lemma length_diff: "length (diff xs) = length xs"
  by (cases xs) simp_all

lemma diff_nth:
  assumes "i < length xs"
  shows "diff xs ! i = (if i = 0 then None else Some (xs ! i - xs ! (i - 1)))"
proof (cases xs)
  case Nil
  with assms show ?thesis by simp
next
  case (Cons x ys)
  show ?thesis
  proof (cases i)
    case 0
    with Cons show ?thesis by simp
  next
    case (Suc j)
    with assms Cons have "j < length ys" by simp
    with Cons Suc show ?thesis by (cases j) simp_all
  qed
qed

lemma idle_hrs_fst: "map fst (idle_hrs g) = sort_key Start_time g"
  by (simp add: idle_hrs_def Let_def length_diff)

lemma idle_hrs_length: "length (idle_hrs g) = length g"
  by (simp add: idle_hrs_def Let_def length_diff)

lemma idle_hrs_snd:
  assumes "i < length g"
  shows "snd (idle_hrs g ! i) =
    (if i = 0 then None
     else Some ((Start_time (sort_key Start_time g ! i) - Start_time (sort_key Start_time g ! (i - 1))) / 3600))"
proof -
  let ?s = "sort_key Start_time g"
  from assms have i: "i < length ?s" by simp
  then have "snd (idle_hrs g ! i) = map_option (\<lambda>seconds. seconds / 3600) (diff (map Start_time ?s) ! i)"
    by (simp add: idle_hrs_def Let_def length_diff)
  also have "diff (map Start_time ?s) ! i =
      (if i = 0 then None else Some (map Start_time ?s ! i - map Start_time ?s ! (i - 1)))"
    using i by (intro diff_nth) simp
  finally show ?thesis using i by simp
qed

lemma groupby_rev_stages_A: "groupby_well (rev stages_A) = [(''A'', rev stages_A)]"
proof -
  have k: "sort (remdups (List.map_filter Well_Name (rev stages_A))) = [''A'']"
    by code_simp
  show ?thesis unfolding groupby_well_def k by (simp add: stages_A_def)
qed

lemma sort_rev_stages_A: "sort_key Start_time (rev stages_A) = stages_A"
  by (simp add: stages_A_def)

subsection \<open>Facts about the quality tables\<close>

lemma count_list_map_filter:
  "count_list (List.map_filter (\<lambda>v. v) column) k = count_list column (Some k)"
  by (induction column) (auto simp: List.map_filter_simps split: option.splits)

lemma set_map_filter_id: "set (List.map_filter (\<lambda>v. v) column) = {k. Some k \<in> set column}"
  by (induction column) (auto simp: List.map_filter_simps split: option.splits)

lemma count_list_positive: "x \<in> set xs \<Longrightarrow> 0 < count_list xs x"
  using count_list_0_iff[of xs x] by (cases "count_list xs x") simp_all

lemma value_counts_set:
  "set (value_counts column) = (\<lambda>k. (k, count_list column (Some k))) ` {k. Some k \<in> set column}"
  by (simp add: value_counts_def Let_def count_list_map_filter set_map_filter_id)

lemma value_counts_keys: "fst ` set (value_counts column) = {k. Some k \<in> set column}"
  by (force simp: value_counts_set)

lemma value_counts_distinct: "distinct (map fst (value_counts column))"
proof -
  let ?vals = "List.map_filter (\<lambda>v. v) column"
  let ?items = "map (\<lambda>k. (k, count_list ?vals k)) (rev (remdups (rev ?vals)))"
  have "mset (map fst (value_counts column)) = mset (map fst ?items)"
    by (simp add: value_counts_def Let_def multiset.map_comp)
  moreover have "distinct (map fst ?items)"
    by (simp add: comp_def)
  ultimately show ?thesis
    using mset_eq_imp_distinct_iff by blast
qed

lemma get0_value_counts: "get0 (value_counts column) k = count_list column (Some k)"
proof (cases "Some k \<in> set column")
  case True
  then have "(k, count_list column (Some k)) \<in> set (value_counts column)"
    by (simp add: value_counts_set)
  then have "map_of (value_counts column) k = Some (count_list column (Some k))"
    using value_counts_distinct by (simp add: map_of_eq_Some_iff)
  then show ?thesis by (simp add: get0_def)
next
  case False
  then have "k \<notin> fst ` set (value_counts column)"
    by (simp add: value_counts_keys)
  then have "map_of (value_counts column) k = None"
    by (simp add: map_of_eq_None_iff)
  with False show ?thesis by (simp add: get0_def)
qed

lemma value_counts_positive: "(k, c) \<in> set (value_counts column) \<Longrightarrow> 0 < c"
  by (auto simp: value_counts_set count_list_positive)

lemma rate_table_conditions:
  "map Condition (rate_table pre_counts post_counts) =
     sort (remdups (map fst pre_counts @ map fst post_counts))"
  by (simp add: rate_table_def Let_def comp_def)

lemma rate_table_row:
  assumes "r \<in> set (rate_table pre_counts post_counts)"
  shows "Pre r = get0 pre_counts (Condition r)" "Post r = get0 post_counts (Condition r)"
    "Total r = Pre r + Post r"
    "Condition r \<in> fst ` set pre_counts \<union> fst ` set post_counts"
  using assms by (force simp: rate_table_def Let_def)+

lemma spp_rows_nonzero:
  assumes "spp_total \<noteq> 0"
  shows "spp_rows spp_total items =
    Inr (map (\<lambda>(k, v). \<lparr>SPP_Condition = k, Count = v,
                          SPP_Percent_Total = of_nat v / of_nat spp_total * 100\<rparr>) items)"
  using assms by (induction items) (auto simp: py_truediv_def)

lemma spp_table_rows:
  "spp_table quality_df =
    Inr (map (\<lambda>(k, v). \<lparr>SPP_Condition = k, Count = v,
                 SPP_Percent_Total =
                   of_nat v / of_nat (sum_list (map snd (value_counts (map spp quality_df)))) * 100\<rparr>)
          (value_counts (map spp quality_df)))"
proof (cases "value_counts (map spp quality_df)")
  case Nil
  then show ?thesis by (simp add: spp_table_def)
next
  case (Cons kv items)
  obtain k v where kv: "kv = (k, v)" by (cases kv)
  with Cons have "(k, v) \<in> set (value_counts (map spp quality_df))" by simp
  then have "0 < v" by (rule value_counts_positive)
  with Cons kv have "sum_list (map snd (value_counts (map spp quality_df))) \<noteq> 0" by simp
  then show ?thesis
    by (simp add: spp_table_def Let_def spp_rows_nonzero)
qed

lemma rate_df_rows:
  assumes "rate_df quality_df = Inr rows"
  defines "table \<equiv> rate_table (value_counts (map pre_sand quality_df)) (value_counts (map post_sand quality_df))"
  shows "table \<noteq> []"
    and "rows = map (\<lambda>r. \<lparr>Condition = Condition r, Pre = Pre r, Post = Post r, Total = Total r,
                Percent_Total = map_option (\<lambda>q. q * 100) (np_truediv (Total r) (sum_list (map Total table)))\<rparr>) table"
  using assms by (auto simp: rate_df_def Let_def split: if_splits)

lemma rate_total_positive:
  assumes "r \<in> set (rate_table (value_counts pre) (value_counts post))"
  shows "0 < Total r"
proof -
  from rate_table_row(4)[OF assms]
  have "Some (Condition r) \<in> set pre \<or> Some (Condition r) \<in> set post"
    by (simp add: value_counts_keys)
  then have "0 < count_list pre (Some (Condition r)) \<or> 0 < count_list post (Some (Condition r))"
    by (elim disjE) (simp_all add: count_list_positive)
  then have "0 < count_list pre (Some (Condition r)) + count_list post (Some (Condition r))"
    by arith
  then show ?thesis
    using rate_table_row(1,2,3)[OF assms] by (simp add: get0_value_counts)
qed

lemma rate_grand_total_nonzero:
  assumes "rate_table (value_counts pre) (value_counts post) \<noteq> []"
  shows "sum_list (map Total (rate_table (value_counts pre) (value_counts post))) \<noteq> 0"
proof -
  let ?t = "rate_table (value_counts pre) (value_counts post)"
  from assms obtain r where r: "r \<in> set ?t" by (cases ?t) auto
  then have "0 < Total r" by (rule rate_total_positive)
  moreover from r have "Total r \<le> sum_list (map Total ?t)"
    by (intro member_le_sum_list) auto
  ultimately show ?thesis by arith
qed

lemma np_truediv_Some: "n \<noteq> 0 \<Longrightarrow> np_truediv a n = Some (rat_of_nat a / rat_of_nat n)"
  by (simp add: np_truediv_def)


lemma value_counts_B:
  "value_counts (map pre_sand quality_B) = [(''Good'', 2), (''Bad'', 1)]"
  "value_counts (map post_sand quality_B) = [(''Good'', 1)]"
  "value_counts (map spp quality_B) = [(''Good'', 2), (''Anomaly'', 1)]"
  by (simp_all add: quality_B_def value_counts_def List.map_filter_simps)

lemma rate_conditions_B: "sort (remdups [''Good'', ''Bad'', ''Good'']) = [''Bad'', ''Good'']"
  by code_simp

lemma rate_df_B:
  "rate_df quality_B =
     Inr [\<lparr>Condition = ''Bad'', Pre = 1, Post = 0, Total = 1, Percent_Total = Some 25\<rparr>,
          \<lparr>Condition = ''Good'', Pre = 2, Post = 1, Total = 3, Percent_Total = Some 75\<rparr>]"
  by (simp add: rate_df_def value_counts_B rate_table_def rate_conditions_B get0_def np_truediv_def
      del: remdups.simps sort_key_simps)

lemma spp_table_B:
  "spp_table quality_B =
     Inr [\<lparr>SPP_Condition = ''Good'', Count = 2, SPP_Percent_Total = 200 / 3\<rparr>,
          \<lparr>SPP_Condition = ''Anomaly'', Count = 1, SPP_Percent_Total = 100 / 3\<rparr>]"
  by (simp add: spp_table_def value_counts_B py_truediv_def)




subsection \<open>Facts about binary floating point\<close>












section \<open>The claims\<close>

subsection \<open>Normalisation\<close>

text \<open>
  Claim C2 says that normalisation raises no error: a row whose start or end does not
  parse is dropped, and the rows that stay keep their order.  Both scripts pass
  \<^verbatim>\<open>errors="coerce"\<close> for that, and the conversion raises all the same on a column that
  pandas refuses.  Of the two rows here the first has its start time at the offset +00:00
  and the second at +01:00.  Each row alone is normalised to its record; the upload that
  holds both ends in ValueError at line 72, and no record is left.
\<close>

theorem mixed_offsets_abort_normalisation:
  "normalize_kpi refuses_example parse_offsets_example [''Start time'', ''End time''] upload_mixed
     = Inl ValueError
   \<and> normalize_kpi refuses_example parse_offsets_example [''Start time'', ''End time'']
       [upload_mixed ! 0]
     = Inr [\<lparr>Well_Name = Some ''A'', Stage = 1, Start_time = 1704067200, End_time = 1704070800\<rparr>]
   \<and> normalize_kpi refuses_example parse_offsets_example [''Start time'', ''End time'']
       [upload_mixed ! 1]
     = Inr [\<lparr>Well_Name = Some ''A'', Stage = 2, Start_time = 1704074400, End_time = 1704081600\<rparr>]"
  unfolding normalize_kpi_plain_labels normalize_frame_cases
  using refuses_upload by (simp only: normalize_df_mixed_rows if_True if_False simp_thms)

text \<open>
  Claim C10, as stated: every record that survives normalisation has its end no earlier
  than its start.  The code never compares the two: a row that ends an hour before it
  starts survives, with a duration of minus one hour.
\<close>

theorem reversed_row_survives_counterexample:
  "normalize_df parse_example upload_reversed =
     [\<lparr>Well_Name = Some ''A'', Stage = 1, Start_time = 1704070800, End_time = 1704067200\<rparr>]
   \<and> \<not> Start_time (hd (normalize_df parse_example upload_reversed))
         \<le> End_time (hd (normalize_df parse_example upload_reversed))
   \<and> Duration_hrs (hd (normalize_df parse_example upload_reversed)) = - 1"
  by (simp add: normalize_df_filter upload_reversed_def parses_def stage_record_def start_of_def
      end_of_def parse_example_def Duration_hrs_def)

text \<open>
  Claim C10, amended.  Every record that survives normalisation comes from a row whose
  two times both parsed, and its duration in hours is end minus start over 3600, which is
  non-negative exactly when the end is no earlier than the start.
\<close>

theorem duration_sign_follows_times:
  assumes "r \<in> set (normalize_df parse kpi_df)"
  shows "(\<exists>raw \<in> set kpi_df.
            start_of parse kpi_df raw = Some (Start_time r) \<and>
            end_of parse kpi_df raw = Some (End_time r))
         \<and> Duration_hrs r = (End_time r - Start_time r) / 3600
         \<and> (0 \<le> Duration_hrs r \<longleftrightarrow> Start_time r \<le> End_time r)"
proof -
  from assms obtain raw where raw: "raw \<in> set kpi_df" "parses parse kpi_df raw"
    and r: "r = stage_record parse kpi_df raw"
    by (auto simp: normalize_df_filter)
  from raw(2) r have "start_of parse kpi_df raw = Some (Start_time r)"
    "end_of parse kpi_df raw = Some (End_time r)"
    by (auto simp: parses_def stage_record_def)
  with raw(1) show ?thesis
    by (auto simp: Duration_hrs_def)
qed

theorem duration_sign_follows_times_witness:
  "stages_A ! 0 \<in> set (normalize_df parse_example upload_A)
   \<and> Duration_hrs (stages_A ! 0) = 1 \<and> Start_time (stages_A ! 0) \<le> End_time (stages_A ! 0)"
proof -
  have n: "normalize_df parse_example upload_A = stages_A"
    by (simp add: normalize_df_filter upload_A_def stages_A_def parses_def stage_record_def
        start_of_def end_of_def parse_example_def)
  have m: "stages_A ! 0 \<in> set (normalize_df parse_example upload_A)"
    unfolding n by (simp add: stages_A_def)
  from duration_sign_follows_times[OF m] have "Duration_hrs (stages_A ! 0) = (End_time (stages_A ! 0) - Start_time (stages_A ! 0)) / 3600"
    and "0 \<le> Duration_hrs (stages_A ! 0) \<longleftrightarrow> Start_time (stages_A ! 0) \<le> End_time (stages_A ! 0)"
    by simp_all
  with m show ?thesis by (simp add: stages_A_def)
qed

subsection \<open>Completion estimates\<close>

text \<open>
  Claim C1, as stated: every well with a valid record has the estimate latest end plus
  remaining stages times average hours.  The job form puts no upper bound on a target.
  With the target 1000000000000000 for well A and the two records of the scenario, the
  remaining hours are more days than \<^verbatim>\<open>timedelta\<close> holds: line 107 raises OverflowError
  and the well has no estimate.
\<close>

theorem est_end_formula_counterexample:
  "stages_A ! 0 \<in> set stages_A \<and> Well_Name (stages_A ! 0) = Some ''A''
   \<and> well_rows stages_A ''A'' = stages_A
   \<and> estimate_well ns_limits [(''A'', 1000000000000000)] ''A'' (well_rows stages_A ''A'')
       = Inl OverflowError"
proof -
  have w: "well_rows stages_A ''A'' = stages_A"
    by (simp add: well_rows_def stages_A_def)
  have ne: "stages_A \<noteq> []" by (simp add: stages_A_def)
  have "estimate_well ns_limits [(''A'', 1000000000000000)] ''A'' stages_A = Inl OverflowError"
    by (subst estimate_well_nonempty[OF ne refl refl refl refl])
       (simp add: stages_A_def total_stages_kpi_def Duration_hrs_def)
  then show ?thesis by (simp add: w) (simp add: stages_A_def)
qed

text \<open>
  Claim C1, amended.  A well that has a row has one group in \<^verbatim>\<open>groupby\<close>, the rows of
  that well, and the group is not empty.  Let remaining be the target minus the number
  of these rows, the average the arithmetic mean of (end - start) / 3600 over them, and
  latest the maximum of their ends.  When remaining times average is a duration that
  \<^verbatim>\<open>timedelta\<close> holds (no more than 999999999 days either way), and pandas holds that
  duration and the time it leads to, the estimate of the well is latest plus remaining
  times average, in hours.  Otherwise line 107 raises and the well has no estimate.  For
  the target 3 and the records 00:00 to 01:00 and 03:00 to 04:00 of 2024-01-01 the
  estimate is 05:00 of that day.
\<close>

theorem est_end_formula:
  assumes "r \<in> set kpi_df" and "Well_Name r = Some w"
    and "g = well_rows kpi_df w"
    and "remaining = total_stages_kpi wells w - int (length g)"
    and "avg = sum_list (map (\<lambda>r. (End_time r - Start_time r) / 3600) g) / of_nat (length g)"
    and "latest = Max (End_time ` set g)"
    and "td = of_int remaining * avg * 3600"
  shows "(w, g) \<in> set (groupby_well kpi_df)
    \<and> (\<forall>g'. (w, g') \<in> set (groupby_well kpi_df) \<longrightarrow> g' = g)
    \<and> g \<noteq> []
    \<and> (- 999999999 \<le> \<lfloor>td / 86400\<rfloor> \<and> \<lfloor>td / 86400\<rfloor> \<le> 999999999
         \<and> \<bar>td\<bar> \<le> timedelta_max lims
         \<and> timestamp_min lims \<le> latest + td \<and> latest + td \<le> timestamp_max lims
       \<longrightarrow> (\<exists>p. estimate_well lims wells w g = Inr p
              \<and> stages_done p = int (length g)
              \<and> stages_remaining p = remaining
              \<and> avg_duration p = avg
              \<and> last_end p = latest
              \<and> est_end p = latest + td))
    \<and> (\<not> (- 999999999 \<le> \<lfloor>td / 86400\<rfloor> \<and> \<lfloor>td / 86400\<rfloor> \<le> 999999999
            \<and> \<bar>td\<bar> \<le> timedelta_max lims
            \<and> timestamp_min lims \<le> latest + td \<and> latest + td \<le> timestamp_max lims)
       \<longrightarrow> (\<exists>e. estimate_well lims wells w g = Inl e))"
proof -
  have mem: "(w, g) \<in> set (groupby_well kpi_df)"
    using assms(1,2,3) by (auto simp: groupby_well_rows)
  have uniq: "\<forall>g'. (w, g') \<in> set (groupby_well kpi_df) \<longrightarrow> g' = g"
    using assms(3) by (simp add: groupby_well_rows)
  have ne: "g \<noteq> []" using mem by (rule groupby_well_member)
  have "map Duration_hrs g = map (\<lambda>r. (End_time r - Start_time r) / 3600) g"
    by (simp add: Duration_hrs_def)
  with assms(5) have avg': "avg = sum_list (map Duration_hrs g) / of_nat (length g)"
    by (simp only:)
  note e = estimate_well_nonempty[OF ne assms(4) avg' assms(6) assms(7), of lims]
  have ok: "- 999999999 \<le> \<lfloor>td / 86400\<rfloor> \<and> \<lfloor>td / 86400\<rfloor> \<le> 999999999
         \<and> \<bar>td\<bar> \<le> timedelta_max lims
         \<and> timestamp_min lims \<le> latest + td \<and> latest + td \<le> timestamp_max lims
       \<longrightarrow> (\<exists>p. estimate_well lims wells w g = Inr p
              \<and> stages_done p = int (length g)
              \<and> stages_remaining p = remaining
              \<and> avg_duration p = avg
              \<and> last_end p = latest
              \<and> est_end p = latest + td)"
    by (simp add: e)
  have bad: "\<not> (- 999999999 \<le> \<lfloor>td / 86400\<rfloor> \<and> \<lfloor>td / 86400\<rfloor> \<le> 999999999
            \<and> \<bar>td\<bar> \<le> timedelta_max lims
            \<and> timestamp_min lims \<le> latest + td \<and> latest + td \<le> timestamp_max lims)
       \<longrightarrow> (\<exists>e. estimate_well lims wells w g = Inl e)"
    unfolding e by (simp only: if_not_P split: if_splits) auto
  from mem uniq ne ok bad show ?thesis by blast
qed

theorem est_end_formula_witness:
  "stages_A ! 0 \<in> set stages_A \<and> Well_Name (stages_A ! 0) = Some ''A''
   \<and> stages_A = well_rows stages_A ''A''
   \<and> (1 :: int) = total_stages_kpi [(''A'', 3)] ''A'' - int (length stages_A)
   \<and> (3600 :: rat) = of_int 1 * 1 * 3600
   \<and> (case estimate_well ns_limits [(''A'', 3)] ''A'' stages_A of
         Inl e \<Rightarrow> None | Inr p \<Rightarrow> Some (est_end p)) = Some (1704067200 + 5 * 3600)"
proof -
  have a1: "stages_A ! 0 \<in> set stages_A" by (simp add: stages_A_def)
  have a2: "Well_Name (stages_A ! 0) = Some ''A''" by (simp add: stages_A_def)
  have a3: "stages_A = well_rows stages_A ''A''" by (simp add: well_rows_def stages_A_def)
  have a4: "(1 :: int) = total_stages_kpi [(''A'', 3)] ''A'' - int (length stages_A)"
    by (simp add: total_stages_kpi_def stages_A_def)
  have a5: "(1 :: rat) = sum_list (map (\<lambda>r. (End_time r - Start_time r) / 3600) stages_A)
      / of_nat (length stages_A)"
    by (simp add: stages_A_def)
  have a6: "(1704081600 :: rat) = Max (End_time ` set stages_A)" by (simp add: stages_A_def)
  have a7: "(3600 :: rat) = of_int 1 * 1 * 3600" by simp
  note t = est_end_formula[OF a1 a2 a3 a4 a5 a6 a7, of ns_limits]
  have r: "- 999999999 \<le> \<lfloor>(3600 :: rat) / 86400\<rfloor> \<and> \<lfloor>(3600 :: rat) / 86400\<rfloor> \<le> 999999999
         \<and> \<bar>3600\<bar> \<le> timedelta_max ns_limits
         \<and> timestamp_min ns_limits \<le> 1704081600 + 3600
         \<and> 1704081600 + 3600 \<le> timestamp_max ns_limits"
    by (simp add: ns_limits_simps)
  with t obtain p where "estimate_well ns_limits [(''A'', 3)] ''A'' stages_A = Inr p"
    and "est_end p = 1704081600 + 3600"
    by blast
  with a1 a2 a3 a4 a7 show ?thesis by simp
qed

text \<open>
  Claim C5, as stated: the pad estimate is the maximum over the wells that have an
  estimate, and it is undefined when no well has a record.  Here well B has the estimate
  06:00, well A with the target 1000000000000000 has none, and the pad estimate is not
  that of well B: the OverflowError of well A ends the loop before line 113.  And for a
  frame whose only row names no well, line 113 takes the maximum of an empty list, which
  raises ValueError.
\<close>

theorem pad_end_counterexample:
  "Well_Name (stages_AB ! 1) = Some ''B''
   \<and> estimate_well ns_limits [(''A'', 1000000000000000), (''B'', 2)] ''B'' (well_rows stages_AB ''B'')
       = Inr \<lparr>well = ''B'', total_stages = 2, stages_done = 1, stages_remaining = 1,
              avg_duration = 2, last_end = 1704081600, est_end = 1704088800\<rparr>
   \<and> pad_end ns_limits [(''A'', 1000000000000000), (''B'', 2)] stages_AB = Inl OverflowError
   \<and> pad_end ns_limits [(''A'', 3), (''B'', 2)]
       [\<lparr>Well_Name = None, Stage = 1, Start_time = 1704067200, End_time = 1704070800\<rparr>]
       = Inl ValueError"
proof -
  let ?wells = "[(''A'', 1000000000000000), (''B'', 2)] :: (string \<times> int) list"
  let ?A = "[\<lparr>Well_Name = Some ''A'', Stage = 1, Start_time = 1704067200, End_time = 1704070800\<rparr>,
             \<lparr>Well_Name = Some ''A'', Stage = 4, Start_time = 1704078000, End_time = 1704081600\<rparr>]
            :: (timestamp, timestamp) kpi_row list"
  let ?B = "[\<lparr>Well_Name = Some ''B'', Stage = 1, Start_time = 1704074400, End_time = 1704081600\<rparr>]
            :: (timestamp, timestamp) kpi_row list"
  have k: "sort (remdups (List.map_filter Well_Name stages_AB)) = [''A'', ''B'']"
    by code_simp
  have g: "groupby_well stages_AB = [(''A'', ?A), (''B'', ?B)]"
    unfolding groupby_well_def k by (simp add: stages_AB_def)
  have w: "well_rows stages_AB ''B'' = ?B"
    by (simp add: well_rows_def stages_AB_def)
  have A: "estimate_well ns_limits ?wells ''A'' ?A = Inl OverflowError"
    by (subst estimate_well_nonempty[OF _ refl refl refl refl])
       (simp_all add: total_stages_kpi_def Duration_hrs_def)
  have B: "estimate_well ns_limits ?wells ''B'' ?B =
      Inr \<lparr>well = ''B'', total_stages = 2, stages_done = 1, stages_remaining = 1,
              avg_duration = 2, last_end = 1704081600, est_end = 1704088800\<rparr>"
    by (subst estimate_well_nonempty[OF _ refl refl refl refl])
       (simp_all add: total_stages_kpi_def Duration_hrs_def ns_limits_simps)
  have p: "pad_end ns_limits ?wells stages_AB = Inl OverflowError"
    by (simp add: pad_end_def g A)
  have e: "pad_end ns_limits [(''A'', 3), (''B'', 2)]
       [\<lparr>Well_Name = None, Stage = 1, Start_time = 1704067200, End_time = 1704070800\<rparr>]
       = Inl ValueError"
    by (simp add: pad_end_def groupby_well_def List.map_filter_simps py_max_def)
  have "Well_Name (stages_AB ! 1) = Some ''B''" by (simp add: stages_AB_def)
  with B p e show ?thesis unfolding w by simp
qed

text \<open>
  Claim C5, amended.  When some row names a well and every well with a row has an
  estimate, the pad estimate exists: the estimate of no such well is later, and the
  estimate of one of them equals it.  When the estimate of some well with a row raises,
  the pad estimate raises too.
\<close>

theorem pad_end_is_max:
  "((\<exists>r \<in> set kpi_df. Well_Name r \<noteq> None)
     \<and> (\<forall>r \<in> set kpi_df. \<forall>w. Well_Name r = Some w \<longrightarrow>
           (\<exists>p. estimate_well lims wells w (well_rows kpi_df w) = Inr p))
    \<longrightarrow> (\<exists>t. pad_end lims wells kpi_df = Inr t
          \<and> (\<forall>r \<in> set kpi_df. \<forall>w. Well_Name r = Some w \<longrightarrow>
                (\<exists>p. estimate_well lims wells w (well_rows kpi_df w) = Inr p \<and> est_end p \<le> t))
          \<and> (\<exists>r \<in> set kpi_df. \<exists>w. Well_Name r = Some w
                \<and> (\<exists>p. estimate_well lims wells w (well_rows kpi_df w) = Inr p \<and> est_end p = t))))
   \<and> ((\<exists>r \<in> set kpi_df. \<exists>w e. Well_Name r = Some w
          \<and> estimate_well lims wells w (well_rows kpi_df w) = Inl e)
    \<longrightarrow> (\<exists>e. pad_end lims wells kpi_df = Inl e))"
proof (intro conjI impI)
  let ?gs = "groupby_well kpi_df"
  assume a: "(\<exists>r \<in> set kpi_df. Well_Name r \<noteq> None)
     \<and> (\<forall>r \<in> set kpi_df. \<forall>w. Well_Name r = Some w \<longrightarrow>
           (\<exists>p. estimate_well lims wells w (well_rows kpi_df w) = Inr p))"
  then have ne: "?gs \<noteq> []" by (auto simp: groupby_well_Nil)
  have "\<forall>(w, g) \<in> set ?gs. \<exists>p. estimate_well lims wells w g = Inr p"
    using a by (auto simp: groupby_well_rows)
  then obtain ps where ps: "estimate_wells lims wells ?gs = Inr ps"
    using estimate_wells_all_defined by blast
  then have m: "map Inr ps = map (\<lambda>(w, g). estimate_well lims wells w g) ?gs"
    by (rule estimate_wells_Inr)
  then have "length ps = length ?gs" by (metis length_map)
  with ne have pne: "ps \<noteq> []" by auto
  let ?t = "Max (set (map est_end ps))"
  have pad: "pad_end lims wells kpi_df = Inr ?t"
    using pne by (simp add: pad_end_def ps py_max_Max)
  from m have img: "Inr ` set ps = (\<lambda>(w, g). estimate_well lims wells w g) ` set ?gs"
    by (metis (no_types) list.set_map)
  have upper: "\<forall>r \<in> set kpi_df. \<forall>w. Well_Name r = Some w \<longrightarrow>
      (\<exists>p. estimate_well lims wells w (well_rows kpi_df w) = Inr p \<and> est_end p \<le> ?t)"
  proof (intro ballI allI impI)
    fix r w assume "r \<in> set kpi_df" "Well_Name r = Some w"
    then have "(w, well_rows kpi_df w) \<in> set ?gs" by (auto simp: groupby_well_rows)
    then have "estimate_well lims wells w (well_rows kpi_df w) \<in> Inr ` set ps"
      unfolding img by force
    then obtain p where p: "p \<in> set ps" "estimate_well lims wells w (well_rows kpi_df w) = Inr p"
      by auto
    then have "est_end p \<le> ?t" by simp
    with p show "\<exists>p. estimate_well lims wells w (well_rows kpi_df w) = Inr p \<and> est_end p \<le> ?t"
      by blast
  qed
  have "?t \<in> set (map est_end ps)"
    using pne by (intro Max_in) simp_all
  then obtain p where p: "p \<in> set ps" "est_end p = ?t" by auto
  then have "Inr p \<in> (\<lambda>(w, g). estimate_well lims wells w g) ` set ?gs"
    unfolding img[symmetric] by simp
  then obtain w g where wg: "(w, g) \<in> set ?gs" "estimate_well lims wells w g = Inr p"
    by force
  then obtain r where "r \<in> set kpi_df" "Well_Name r = Some w" "g = well_rows kpi_df w"
    by (auto simp: groupby_well_rows)
  with wg(2) p(2) have attained: "\<exists>r \<in> set kpi_df. \<exists>w. Well_Name r = Some w
      \<and> (\<exists>p. estimate_well lims wells w (well_rows kpi_df w) = Inr p \<and> est_end p = ?t)"
    by blast
  from pad upper attained
  show "\<exists>t. pad_end lims wells kpi_df = Inr t
          \<and> (\<forall>r \<in> set kpi_df. \<forall>w. Well_Name r = Some w \<longrightarrow>
                (\<exists>p. estimate_well lims wells w (well_rows kpi_df w) = Inr p \<and> est_end p \<le> t))
          \<and> (\<exists>r \<in> set kpi_df. \<exists>w. Well_Name r = Some w
                \<and> (\<exists>p. estimate_well lims wells w (well_rows kpi_df w) = Inr p \<and> est_end p = t))"
    by blast
next
  assume "\<exists>r \<in> set kpi_df. \<exists>w e. Well_Name r = Some w
          \<and> estimate_well lims wells w (well_rows kpi_df w) = Inl e"
  then obtain r w e where "r \<in> set kpi_df" "Well_Name r = Some w"
    and e: "estimate_well lims wells w (well_rows kpi_df w) = Inl e"
    by blast
  then have "(w, well_rows kpi_df w) \<in> set (groupby_well kpi_df)"
    by (auto simp: groupby_well_rows)
  from estimate_wells_raises[OF this e] obtain e' where
    "estimate_wells lims wells (groupby_well kpi_df) = Inl e'" by blast
  then show "\<exists>e. pad_end lims wells kpi_df = Inl e"
    by (simp add: pad_end_def)
qed

theorem pad_end_is_max_witness:
  "Well_Name (stages_AB ! 0) \<noteq> None
   \<and> pad_end ns_limits [(''A'', 3), (''B'', 2)] stages_AB = Inr 1704088800"
proof -
  let ?wells = "[(''A'', 3), (''B'', 2)] :: (string \<times> int) list"
  have rows: "\<And>r w. r \<in> set stages_AB \<Longrightarrow> Well_Name r = Some w \<Longrightarrow> w = ''A'' \<or> w = ''B''"
    by (auto simp: stages_AB_def)
  have some: "\<exists>r \<in> set stages_AB. Well_Name r \<noteq> None"
    by (simp add: stages_AB_def)
  have defined: "\<forall>r \<in> set stages_AB. \<forall>w. Well_Name r = Some w \<longrightarrow>
      (\<exists>p. estimate_well ns_limits ?wells w (well_rows stages_AB w) = Inr p)"
    using rows est_AB by blast
  from pad_end_is_max[of stages_AB ns_limits ?wells] some defined
  obtain t where t: "pad_end ns_limits ?wells stages_AB = Inr t"
    and up: "\<forall>r \<in> set stages_AB. \<forall>w. Well_Name r = Some w \<longrightarrow>
        (\<exists>p. estimate_well ns_limits ?wells w (well_rows stages_AB w) = Inr p \<and> est_end p \<le> t)"
    and at: "\<exists>r \<in> set stages_AB. \<exists>w. Well_Name r = Some w
        \<and> (\<exists>p. estimate_well ns_limits ?wells w (well_rows stages_AB w) = Inr p \<and> est_end p = t)"
    by blast
  have b: "stages_AB ! 1 \<in> set stages_AB" "Well_Name (stages_AB ! 1) = Some ''B''"
    by (simp_all add: stages_AB_def)
  with up have "\<exists>p. estimate_well ns_limits ?wells ''B'' (well_rows stages_AB ''B'') = Inr p \<and> est_end p \<le> t"
    by blast
  then have lo: "1704088800 \<le> t" by (simp add: est_AB)
  from at obtain r w p where "r \<in> set stages_AB" "Well_Name r = Some w"
    and p: "estimate_well ns_limits ?wells w (well_rows stages_AB w) = Inr p" "est_end p = t"
    by blast
  with rows have "w = ''A'' \<or> w = ''B''" by blast
  with p have "t = 1704085200 \<or> t = 1704088800" by (auto simp: est_AB)
  with lo have "t = 1704088800" by auto
  moreover have "Well_Name (stages_AB ! 0) \<noteq> None" by (simp add: stages_AB_def)
  ultimately show ?thesis using t by simp
qed

text \<open>
  Claim C9.  For every group of \<^verbatim>\<open>groupby\<close> the idle view is the group sorted by start
  time, one idle value per row: none for the first row, and for every later row its
  start minus the start of the row before it, over 3600.  The end times play no part:
  for stages 00:00 to 01:00 and 03:00 to 04:00 the idle value is 3 hours, while the
  second stage starts 2 hours after the first one ends.
\<close>

theorem idle_is_gap_between_starts:
  assumes "(w, g) \<in> set (groupby_well kpi_df)"
  shows "(w, idle_hrs g) \<in> set (idle_analysis kpi_df)
    \<and> length (idle_hrs g) = length g
    \<and> mset (map fst (idle_hrs g)) = mset g
    \<and> sorted (map (\<lambda>row. Start_time (fst row)) (idle_hrs g))
    \<and> snd (idle_hrs g ! 0) = None
    \<and> (\<forall>i. 1 \<le> i \<and> i < length g \<longrightarrow>
          snd (idle_hrs g ! i) =
            Some ((Start_time (fst (idle_hrs g ! i)) - Start_time (fst (idle_hrs g ! (i - 1)))) / 3600))"
proof (intro conjI allI impI)
  from assms show "(w, idle_hrs g) \<in> set (idle_analysis kpi_df)"
    by (force simp: idle_analysis_def)
  show "length (idle_hrs g) = length g" by (rule idle_hrs_length)
  show "mset (map fst (idle_hrs g)) = mset g" by (simp add: idle_hrs_fst)
  have "map (\<lambda>row. Start_time (fst row)) (idle_hrs g) = map Start_time (map fst (idle_hrs g))"
    by (simp add: comp_def)
  then show "sorted (map (\<lambda>row. Start_time (fst row)) (idle_hrs g))"
    by (simp add: idle_hrs_fst)
  from assms have "g \<noteq> []" by (rule groupby_well_member)
  then show "snd (idle_hrs g ! 0) = None" by (simp add: idle_hrs_snd)
next
  fix i assume i: "1 \<le> i \<and> i < length g"
  have nth: "fst (idle_hrs g ! j) = sort_key Start_time g ! j" if "j < length g" for j
  proof -
    from that have "j < length (idle_hrs g)" by (simp add: idle_hrs_length)
    then have "fst (idle_hrs g ! j) = map fst (idle_hrs g) ! j" by simp
    then show ?thesis by (simp add: idle_hrs_fst)
  qed
  from i have "i - 1 < length g" by arith
  with i show "snd (idle_hrs g ! i) =
      Some ((Start_time (fst (idle_hrs g ! i)) - Start_time (fst (idle_hrs g ! (i - 1)))) / 3600)"
    by (simp add: idle_hrs_snd nth)
qed

theorem idle_is_gap_between_starts_witness:
  "(''A'', rev stages_A) \<in> set (groupby_well (rev stages_A))
   \<and> (1::nat) \<le> 1 \<and> 1 < length (rev stages_A)
   \<and> map fst (idle_hrs (rev stages_A)) = stages_A
   \<and> snd (idle_hrs (rev stages_A) ! 0) = None
   \<and> snd (idle_hrs (rev stages_A) ! 1) = Some 3
   \<and> (Start_time (stages_A ! 1) - End_time (stages_A ! 0)) / 3600 = 2"
proof -
  have m: "(''A'', rev stages_A) \<in> set (groupby_well (rev stages_A))"
    by (simp add: groupby_rev_stages_A)
  have f: "map fst (idle_hrs (rev stages_A)) = stages_A"
    by (simp add: idle_hrs_fst sort_rev_stages_A)
  have l: "length (idle_hrs (rev stages_A)) = 2"
    by (simp add: idle_hrs_length stages_A_def)
  have "map fst (idle_hrs (rev stages_A)) ! j = fst (idle_hrs (rev stages_A) ! j)" if "j < 2" for j
    using that l by (intro nth_map) simp
  then have n: "fst (idle_hrs (rev stages_A) ! 0) = stages_A ! 0"
    "fst (idle_hrs (rev stages_A) ! 1) = stages_A ! 1"
    unfolding f by simp_all
  note t = idle_is_gap_between_starts[OF m]
  from t have z: "snd (idle_hrs (rev stages_A) ! 0) = None" by blast
  have r: "(1::nat) \<le> 1 \<and> 1 < length (rev stages_A)" by (simp add: stages_A_def)
  with t have "snd (idle_hrs (rev stages_A) ! 1) =
      Some ((Start_time (fst (idle_hrs (rev stages_A) ! 1))
             - Start_time (fst (idle_hrs (rev stages_A) ! (1 - 1)))) / 3600)"
    by blast
  then have "snd (idle_hrs (rev stages_A) ! 1) =
      Some ((Start_time (stages_A ! 1) - Start_time (stages_A ! 0)) / 3600)"
    by (simp only: n diff_self_eq_0)
  also have "\<dots> = Some 3"
    by (simp add: stages_A_def)
  finally have o: "snd (idle_hrs (rev stages_A) ! 1) = Some 3" .
  have "(Start_time (stages_A ! 1) - End_time (stages_A ! 0)) / 3600 = 2"
    by (simp add: stages_A_def)
  with m r f z o show ?thesis by simp
qed

subsection \<open>Target stage counts\<close>

text \<open>
  Claim C3 says that a well name with no exact match and no substring match among the
  declared wells gets the target 0.  The viewer does so after its loop over the declared
  names (lines 65 to 75).  The editor's estimate reads the target with
  \<^verbatim>\<open>job_data["wells"].get(well, 60)\<close> (line 102): for a job that declares well B with 5
  stages, the well A of the stage rows matches nothing, the viewer takes the target 0
  and the editor the target 60.
\<close>

theorem editor_target_of_unmatched_well:
  "map_of [(''B'', 5 :: int)] ''A'' = None \<and> \<not> str_in ''B'' ''A'' \<and> \<not> str_in ''A'' ''B''
   \<and> total_stages_kpi [(''B'', 5)] ''A'' = 60
   \<and> total_stages_viewer [(''B'', 5)] ''A'' = 0"
proof -
  have n: "map_of [(''B'', 5 :: int)] ''A'' = None" by simp
  have s: "\<not> str_in ''B'' ''A''" "\<not> str_in ''A'' ''B''"
    by (simp_all add: str_in_def sublist_code)
  have "total_stages_kpi [(''B'', 5)] ''A'' = 60"
    using n by (rule editor_unmatched_target)
  moreover have "total_stages_viewer [(''B'', 5)] ''A'' = 0"
    using n s by (intro viewer_unmatched_target) simp_all
  ultimately show ?thesis using n s by simp
qed



subsection \<open>Quality tables\<close>

text \<open>
  Claim C6, as stated: for pre-sand Good, Good, Bad and post-sand Good the rows are
  Good with 66.67 percent and Bad with 33.33 percent.  The grand total of that input is
  4, not 3: the code gives Bad 25 percent and Good 75 percent.
\<close>

theorem rate_example_counterexample:
  "rate_df quality_B =
     Inr [\<lparr>Condition = ''Bad'', Pre = 1, Post = 0, Total = 1, Percent_Total = Some 25\<rparr>,
          \<lparr>Condition = ''Good'', Pre = 2, Post = 1, Total = 3, Percent_Total = Some 75\<rparr>]
   \<and> rate_df quality_B \<noteq>
     Inr [\<lparr>Condition = ''Bad'', Pre = 1, Post = 0, Total = 1, Percent_Total = Some (100 / 3)\<rparr>,
          \<lparr>Condition = ''Good'', Pre = 2, Post = 1, Total = 3, Percent_Total = Some (200 / 3)\<rparr>]"
  by (simp add: rate_df_B)

text \<open>
  Claim C6, amended.  When the rate table is built, its conditions are sorted, pairwise
  distinct, and exactly the values seen in the pre-sand or the post-sand column; each row
  counts the occurrences of its condition in either column (0 when there is none), its
  total is their sum, and its percentage is the total over the sum of all totals, times
  100.  For pre-sand Good, Good, Bad and post-sand Good the rows are Bad (1, 0, 1, 25
  percent) and Good (2, 1, 3, 75 percent).
\<close>

theorem rate_table_rows:
  assumes "rate_df quality_df = Inr rows"
  shows "sorted (map Condition rows) \<and> distinct (map Condition rows)
    \<and> set (map Condition rows) =
        {c. Some c \<in> set (map pre_sand quality_df)} \<union> {c. Some c \<in> set (map post_sand quality_df)}
    \<and> (\<forall>r \<in> set rows.
          Pre r = count_list (map pre_sand quality_df) (Some (Condition r))
        \<and> Post r = count_list (map post_sand quality_df) (Some (Condition r))
        \<and> Total r = Pre r + Post r
        \<and> Percent_Total r = Some (of_nat (Total r) / of_nat (sum_list (map Total rows)) * 100))"
proof -
  let ?pre = "value_counts (map pre_sand quality_df)" and ?post = "value_counts (map post_sand quality_df)"
  let ?table = "rate_table ?pre ?post"
  let ?T = "sum_list (map Total ?table)"
  from rate_df_rows[OF assms] have ne: "?table \<noteq> []"
    and rows: "rows = map (\<lambda>r. \<lparr>Condition = Condition r, Pre = Pre r, Post = Post r, Total = Total r,
                Percent_Total = map_option (\<lambda>q. q * 100) (np_truediv (Total r) ?T)\<rparr>) ?table"
    by simp_all
  have cond: "map Condition rows = sort (remdups (map fst ?pre @ map fst ?post))"
    unfolding rows by (simp add: comp_def flip: rate_table_conditions)
  have tot: "map Total rows = map Total ?table"
    unfolding rows by (simp add: comp_def)
  have T: "?T \<noteq> 0" using ne by (rule rate_grand_total_nonzero)
  have 1: "sorted (map Condition rows)" unfolding cond by simp
  have 2: "distinct (map Condition rows)" unfolding cond by simp
  have 3: "set (map Condition rows) =
        {c. Some c \<in> set (map pre_sand quality_df)} \<union> {c. Some c \<in> set (map post_sand quality_df)}"
    unfolding cond by (simp add: value_counts_keys)
  have 4: "\<forall>r \<in> set rows.
          Pre r = count_list (map pre_sand quality_df) (Some (Condition r))
        \<and> Post r = count_list (map post_sand quality_df) (Some (Condition r))
        \<and> Total r = Pre r + Post r
        \<and> Percent_Total r = Some (of_nat (Total r) / of_nat (sum_list (map Total rows)) * 100)"
  proof
    fix r assume "r \<in> set rows"
    then obtain r0 where r0: "r0 \<in> set ?table"
      and r: "r = \<lparr>Condition = Condition r0, Pre = Pre r0, Post = Post r0, Total = Total r0,
                Percent_Total = map_option (\<lambda>q. q * 100) (np_truediv (Total r0) ?T)\<rparr>"
      unfolding rows by auto
    from rate_table_row[OF r0] T show "Pre r = count_list (map pre_sand quality_df) (Some (Condition r))
        \<and> Post r = count_list (map post_sand quality_df) (Some (Condition r))
        \<and> Total r = Pre r + Post r
        \<and> Percent_Total r = Some (of_nat (Total r) / of_nat (sum_list (map Total rows)) * 100)"
      unfolding tot by (simp add: r get0_value_counts np_truediv_def)
  qed
  from 1 2 3 4 show ?thesis by blast
qed

theorem rate_table_rows_witness:
  "rate_df quality_B =
     Inr [\<lparr>Condition = ''Bad'', Pre = 1, Post = 0, Total = 1, Percent_Total = Some 25\<rparr>,
          \<lparr>Condition = ''Good'', Pre = 2, Post = 1, Total = 3, Percent_Total = Some (3 / 4 * 100)\<rparr>]
   \<and> sorted [''Bad'', ''Good'']
   \<and> {''Bad'', ''Good''} =
       {c. Some c \<in> set (map pre_sand quality_B)} \<union> {c. Some c \<in> set (map post_sand quality_B)}"
proof -
  note t = rate_table_rows[OF rate_df_B]
  from t have "sorted [''Bad'', ''Good'']" by simp
  moreover from t have "{''Bad'', ''Good''} =
       {c. Some c \<in> set (map pre_sand quality_B)} \<union> {c. Some c \<in> set (map post_sand quality_B)}"
    by simp
  ultimately show ?thesis by (simp add: rate_df_B)
qed

text \<open>
  Claim C8.  The quality summary never raises ZeroDivisionError.  With no quality entry
  no table is built at all and the result is the warning that there is no data.
  Otherwise no percentage of the rate table is a division by zero, the SPP table is
  always built, and the only exception of the rate table is the KeyError of a frame
  without rows, when every pre-sand and post-sand value is blank.
\<close>

theorem no_division_fault:
  "quality_summary [] = Inr No_Quality_Data
   \<and> quality_summary quality_df \<noteq> Inl ZeroDivisionError
   \<and> (\<forall>rows. rate_df quality_df = Inr rows \<longrightarrow> None \<notin> set (map Percent_Total rows))
   \<and> (\<forall>e. rate_df quality_df = Inl e \<longrightarrow> e = KeyError ''Total'')
   \<and> (\<exists>srows. spp_table quality_df = Inr srows)"
proof -
  have 1: "quality_summary [] = Inr No_Quality_Data"
    by (simp add: quality_summary_def)
  have 4: "\<forall>e. rate_df quality_df = Inl e \<longrightarrow> e = KeyError ''Total''"
    by (auto simp: rate_df_def Let_def split: if_splits)
  have 5: "\<exists>srows. spp_table quality_df = Inr srows"
    using spp_table_rows by blast
  have 3: "\<forall>rows. rate_df quality_df = Inr rows \<longrightarrow> None \<notin> set (map Percent_Total rows)"
  proof (intro allI impI)
    fix rows assume a: "rate_df quality_df = Inr rows"
    let ?table = "rate_table (value_counts (map pre_sand quality_df)) (value_counts (map post_sand quality_df))"
    from rate_df_rows[OF a] have ne: "?table \<noteq> []"
      and rows: "rows = map (\<lambda>r. \<lparr>Condition = Condition r, Pre = Pre r, Post = Post r, Total = Total r,
                Percent_Total = map_option (\<lambda>q. q * 100)
                  (np_truediv (Total r) (sum_list (map Total ?table)))\<rparr>) ?table"
      by simp_all
    have T: "sum_list (map Total ?table) \<noteq> 0" using ne by (rule rate_grand_total_nonzero)
    show "None \<notin> set (map Percent_Total rows)"
      unfolding rows by (auto simp: np_truediv_Some[OF T])
  qed
  have 2: "quality_summary quality_df \<noteq> Inl ZeroDivisionError"
    using 4 5 by (auto simp: quality_summary_def split: sum.splits)
  from 1 2 3 4 5 show ?thesis by blast
qed

theorem no_division_fault_witness:
  "quality_summary [] = Inr No_Quality_Data
   \<and> quality_summary quality_B =
       Inr (Quality_Tables
         [\<lparr>Condition = ''Bad'', Pre = 1, Post = 0, Total = 1, Percent_Total = Some 25\<rparr>,
          \<lparr>Condition = ''Good'', Pre = 2, Post = 1, Total = 3, Percent_Total = Some 75\<rparr>]
         [\<lparr>SPP_Condition = ''Good'', Count = 2, SPP_Percent_Total = 200 / 3\<rparr>,
          \<lparr>SPP_Condition = ''Anomaly'', Count = 1, SPP_Percent_Total = 100 / 3\<rparr>])
   \<and> quality_summary [\<lparr>q_well = Some ''B'', pre_sand = None, post_sand = None, spp = None\<rparr>]
       = Inl (KeyError ''Total'')"
proof -
  let ?blank = "[\<lparr>q_well = Some ''B'', pre_sand = None, post_sand = None, spp = None\<rparr>]"
  from no_division_fault[of quality_B] have 1: "quality_summary [] = Inr No_Quality_Data"
    by blast
  have 2: "quality_summary quality_B =
       Inr (Quality_Tables
         [\<lparr>Condition = ''Bad'', Pre = 1, Post = 0, Total = 1, Percent_Total = Some 25\<rparr>,
          \<lparr>Condition = ''Good'', Pre = 2, Post = 1, Total = 3, Percent_Total = Some 75\<rparr>]
         [\<lparr>SPP_Condition = ''Good'', Count = 2, SPP_Percent_Total = 200 / 3\<rparr>,
          \<lparr>SPP_Condition = ''Anomaly'', Count = 1, SPP_Percent_Total = 100 / 3\<rparr>])"
    by (simp add: quality_summary_def rate_df_B spp_table_B quality_B_def[symmetric])
       (simp add: quality_B_def)
  have "rate_df ?blank = Inl (KeyError ''Total'')"
    by (simp add: rate_df_def value_counts_def List.map_filter_simps rate_table_def)
  then have 3: "quality_summary ?blank = Inl (KeyError ''Total'')"
    by (simp add: quality_summary_def)
  from 1 2 3 show ?thesis by simp
qed



end
